theory Spec2Isabelle
  imports Complex_Main
begin

section \<open>Errors and small Python helpers\<close>

text \<open>
  Every exception the two modules can raise is a constructor. \<open>SequencingError\<close> is what the
  postprocessor's \<open>_raise_error\<close> raises, \<open>WrongDataTypeException\<close> is the data-kind error of
  the vector tools; the remaining ones are Python's own.
\<close>

datatype error =
    SequencingError string
  | WrongDataTypeException string
  | KeyError string
  | TypeError
  | UnboundLocalError string
  | IndexError

text \<open>Sequencing of fallible steps: the first raise ends the computation.\<close>

definition bind_err :: "('e + 'a) \<Rightarrow> ('a \<Rightarrow> 'e + 'b) \<Rightarrow> 'e + 'b" where
  "bind_err m f = (case m of Inl e \<Rightarrow> Inl e | Inr x \<Rightarrow> f x)"

text \<open>A \<open>for\<close> loop whose body may raise, threading the loop's state.\<close>

fun fold_err :: "('a \<Rightarrow> 's \<Rightarrow> 'e + 's) \<Rightarrow> 'a list \<Rightarrow> 's \<Rightarrow> 'e + 's" where
  "fold_err f [] s = Inr s"
| "fold_err f (x # xs) s = (case f x s of Inl e \<Rightarrow> Inl e | Inr s' \<Rightarrow> fold_err f xs s')"

text \<open>Reading a local variable that may not have been assigned yet (\<open>None\<close>: unbound).\<close>

definition local_var :: "string \<Rightarrow> 'a option \<Rightarrow> error + 'a" where
  "local_var name v = (case v of None \<Rightarrow> Inl (UnboundLocalError name) | Some x \<Rightarrow> Inr x)"

text \<open>\<open>xs[i] = v\<close> on a Python list: a negative index counts from the end, an index out of
  range raises.\<close>

definition py_setitem :: "'a list \<Rightarrow> int \<Rightarrow> 'a \<Rightarrow> error + 'a list" where
  "py_setitem xs i v =
     (let n = int (length xs); j = (if i < 0 then i + n else i)
      in if 0 \<le> j \<and> j < n then Inr (xs[nat j := v]) else Inl IndexError)"

text \<open>\<open>'%s' % (i,)\<close> for an integer.\<close>

fun digits :: "nat \<Rightarrow> string" where
  "digits n = (if n < 10 then [''0123456789'' ! n]
               else digits (n div 10) @ [''0123456789'' ! (n mod 10)])"

definition str_int :: "int \<Rightarrow> string" where
  "str_int i = (if i < 0 then CHR ''-'' # digits (nat (- i)) else digits (nat i))"

text \<open>
  The interpreter of this code base is Python 2: \<open>round\<close> returns a float, rounding halves
  away from zero, and \<open>int\<close> truncates towards zero. Numbers are modelled as reals.
\<close>

definition py_round :: "real \<Rightarrow> real" where
  "py_round x = (if 0 \<le> x then of_int \<lfloor>x + 1 / 2\<rfloor> else of_int \<lceil>x - 1 / 2\<rceil>)"

definition py_int :: "real \<Rightarrow> int" where
  "py_int x = (if 0 \<le> x then \<lfloor>x\<rfloor> else \<lceil>x\<rceil>)"


section \<open>The gender postprocessor\<close>

type_synonym metadata = "(string \<times> string) list"

text \<open>
  The object: the two scalars of \<open>GenderPostprocessor\<close> (\<open>None\<close> is Python's \<open>None\<close>) and the
  results accumulated by the base class.
\<close>

record GenderPostprocessor =
  population_total :: "real option"
  female_ratio :: "real option"
  results :: "(string \<times> int \<times> metadata option) list"

text \<open>
  A method either returns the updated object or raises, leaving the object as it was at the
  moment of the raise: \<open>Inl (error, object)\<close>.
\<close>

type_synonym outcome = "error \<times> GenderPostprocessor + GenderPostprocessor"

text \<open>
  Modelled from the spec: the base class \<open>AbstractPostprocessor\<close>
  (\<open>safe/postprocessors/abstract_postprocessor.py\<close>) is not among the sources. The
  specification gives its template methods \<open>setup\<close>, \<open>process\<close> and \<open>clear\<close> no effect and
  no error of their own (section 4.4 lists the scalars as the only precondition), so they
  leave the object unchanged; \<open>_raise_error\<close> signals the sequencing error; \<open>_append_result\<close>
  appends (name, value, optional metadata) to the accumulated results.
\<close>

definition AbstractPostprocessor_setup :: "GenderPostprocessor \<Rightarrow> outcome" where
  "AbstractPostprocessor_setup self = Inr self"

definition AbstractPostprocessor_process :: "GenderPostprocessor \<Rightarrow> outcome" where
  "AbstractPostprocessor_process self = Inr self"

definition AbstractPostprocessor_clear :: "GenderPostprocessor \<Rightarrow> outcome" where
  "AbstractPostprocessor_clear self = Inr self"

definition raise_error :: "GenderPostprocessor \<Rightarrow> string \<Rightarrow> outcome" where
  "raise_error self message = Inl (SequencingError message, self)"

definition append_result ::
  "GenderPostprocessor \<Rightarrow> string \<Rightarrow> int \<Rightarrow> metadata option \<Rightarrow> outcome" where
  "append_result self name result meta =
     Inr (self\<lparr>results := results self @ [(name, result, meta)]\<rparr>)"

text \<open>Arithmetic on a scalar that may be \<open>None\<close> raises \<open>TypeError\<close>.\<close>

definition number :: "GenderPostprocessor \<Rightarrow> real option \<Rightarrow> error \<times> GenderPostprocessor + real" where
  "number self v = (case v of None \<Rightarrow> Inl (TypeError, self) | Some x \<Rightarrow> Inr x)"

text \<open>\<open>GenderPostprocessor.setup\<close>; \<open>params\<close> is the dictionary of parameters.\<close>

definition setup_gender :: "GenderPostprocessor \<Rightarrow> (string \<rightharpoonup> real option) \<Rightarrow> outcome" where
  "setup_gender self params =
     bind_err (AbstractPostprocessor_setup self) (\<lambda>self.
       if population_total self \<noteq> None \<or> female_ratio self \<noteq> None
       then raise_error self ''clear needs to be called before setup''
       else
         (case params ''population_total'' of
            None \<Rightarrow> Inl (KeyError ''population_total'', self)
          | Some p \<Rightarrow>
              (let self = self\<lparr>population_total := p\<rparr> in
               case params ''female_ratio'' of
                 None \<Rightarrow> Inl (KeyError ''female_ratio'', self)
               | Some r \<Rightarrow> Inr (self\<lparr>female_ratio := r\<rparr>))))"

text \<open>The four indicators. \<open>tr\<close> is the translation function \<open>ugettext\<close> of the code base.\<close>

definition calculate_total :: "(string \<Rightarrow> string) \<Rightarrow> GenderPostprocessor \<Rightarrow> outcome" where
  "calculate_total tr self =
     (let myName = tr ''Total'' in
      bind_err (number self (population_total self)) (\<lambda>myResult.
        append_result self myName (py_int (py_round myResult)) None))"

definition calculate_females :: "(string \<Rightarrow> string) \<Rightarrow> GenderPostprocessor \<Rightarrow> outcome" where
  "calculate_females tr self =
     (let myName = tr ''Female population'' in
      bind_err (number self (population_total self)) (\<lambda>p.
      bind_err (number self (female_ratio self)) (\<lambda>r.
        append_result self myName (py_int (py_round (p * r))) None)))"

definition calculate_weekly_hygene_packs ::
  "(string \<Rightarrow> string) \<Rightarrow> GenderPostprocessor \<Rightarrow> outcome" where
  "calculate_weekly_hygene_packs tr self =
     (let myName = tr ''Weekly hygiene packs'';
          myMeta = [(''description'', ''Females hygiene packs for weekly use'')] in
      bind_err (number self (population_total self)) (\<lambda>p.
      bind_err (number self (female_ratio self)) (\<lambda>r.
        append_result self myName
          (py_int (py_round (p * r * 0.7937 * real_of_int (7 div 7)))) (Some myMeta))))"

definition calculate_weekly_increased_calories ::
  "(string \<Rightarrow> string) \<Rightarrow> GenderPostprocessor \<Rightarrow> outcome" where
  "calculate_weekly_increased_calories tr self =
     (let myName = tr ''Additional weekly rice kg for pregnant and lactating women'';
          myMeta = [(''description'',
                     ''Additional rice kg per week for pregnant and lactating women'')] in
      bind_err (number self (population_total self)) (\<lambda>p.
      bind_err (number self (female_ratio self)) (\<lambda>r.
        (let myLactKg = p * r * 2 * 0.033782;
             myPregKg = p * r * 2 * 0.01281;
             myResult = myLactKg + myPregKg
         in append_result self myName (py_int (py_round myResult)) (Some myMeta)))))"

text \<open>\<open>GenderPostprocessor.process\<close>.\<close>

definition process :: "(string \<Rightarrow> string) \<Rightarrow> GenderPostprocessor \<Rightarrow> outcome" where
  "process tr self =
     bind_err (AbstractPostprocessor_process self) (\<lambda>self.
       if population_total self = None \<or> female_ratio self = None
       then raise_error self ''setup needs to be called before process''
       else
         bind_err (calculate_total tr self) (\<lambda>self.
         bind_err (calculate_females tr self) (\<lambda>self.
         bind_err (calculate_weekly_hygene_packs tr self) (\<lambda>self.
           calculate_weekly_increased_calories tr self))))"

text \<open>\<open>GenderPostprocessor.clear\<close>.\<close>

definition clear :: "GenderPostprocessor \<Rightarrow> outcome" where
  "clear self =
     bind_err (AbstractPostprocessor_clear self) (\<lambda>self.
       Inr (self\<lparr>population_total := None, female_ratio := None\<rparr>))"


section \<open>The host's vector data model\<close>

text \<open>
  Attribute values (\<open>QVariant\<close>), fields (\<open>QgsField\<close>: a name and a type tag), features
  (\<open>QgsFeature\<close>: a geometry and a positional attribute list) and vector layers
  (\<open>QgsVectorLayer\<close> with its data provider: geometry kind, coordinate reference system,
  ordered schema, ordered features). The geometry type \<open>'g\<close> is opaque.
\<close>

datatype variant = VInt int | VStr string | VNull

datatype field_type = QVariant_Int | QVariant_Double | QVariant_String

type_synonym field = "string \<times> field_type"

record 'g feature =
  geometry :: 'g
  attributes :: "variant list"

record 'g layer =
  geometryType :: int
  crs :: string
  layer_fields :: "field list"
  features :: "'g feature list"

text \<open>
  The operations of the host library that the vector tools call and that this code base does
  not implement: the geometry engine (\<open>QgsGeometry\<close>, \<open>QgsPoint\<close>; coordinates of type \<open>'n\<close>)
  and the provider's schema extension, which decides itself which fields it accepts
  (it takes the current schema and the fields to add and returns the new schema).
  \<open>combine\<close> may return no geometry, which is the case the \<open>AttributeError\<close> handler of
  \<open>union_geometry\<close> catches.
\<close>

record ('g, 'n) qgis =
  asPoint :: "'g \<Rightarrow> 'n \<times> 'n"
  fromPolygon :: "('n \<times> 'n) list list \<Rightarrow> 'g"
  combine :: "'g \<Rightarrow> 'g \<Rightarrow> 'g option"
  isGeosValid :: "'g \<Rightarrow> bool"
  intersects :: "'g \<Rightarrow> 'g \<Rightarrow> bool"
  intersection :: "'g \<Rightarrow> 'g \<Rightarrow> 'g"
  symDifference :: "'g \<Rightarrow> 'g \<Rightarrow> 'g"
  asGeometryCollection :: "'g \<Rightarrow> 'g list"
  gtype :: "'g \<Rightarrow> int"
  addAttributes :: "field list \<Rightarrow> field list \<Rightarrow> field list"

text \<open>
  \<open>QgsVectorLayer(uri, name, 'memory')\<close>: a new, empty memory layer whose geometry kind and
  coordinate reference system are read from the URI (\<open>0\<close> point, \<open>1\<close> line, \<open>2\<close> polygon,
  \<open>3\<close> unknown).
\<close>

definition QgsVectorLayer :: "string \<Rightarrow> 'g layer" where
  "QgsVectorLayer uri =
     (if take 10 uri = ''Point?crs='' then
        \<lparr>geometryType = 0, crs = drop 10 uri, layer_fields = [], features = []\<rparr>
      else if take 15 uri = ''LineString?crs='' then
        \<lparr>geometryType = 1, crs = drop 15 uri, layer_fields = [], features = []\<rparr>
      else if take 12 uri = ''Polygon?crs='' then
        \<lparr>geometryType = 2, crs = drop 12 uri, layer_fields = [], features = []\<rparr>
      else \<lparr>geometryType = 3, crs = [], layer_fields = [], features = []\<rparr>)"

text \<open>\<open>provider.addAttributes(fields)\<close> and \<open>provider.addFeatures(features)\<close> on a layer.\<close>

definition provider_addAttributes :: "('g, 'n) qgis \<Rightarrow> 'g layer \<Rightarrow> field list \<Rightarrow> 'g layer" where
  "provider_addAttributes Q layer new_fields =
     layer\<lparr>layer_fields := addAttributes Q (layer_fields layer) new_fields\<rparr>"

definition addFeatures :: "'g layer \<Rightarrow> 'g feature list \<Rightarrow> 'g layer" where
  "addFeatures layer fs = layer\<lparr>features := features layer @ fs\<rparr>"

text \<open>\<open>fields.indexFromName(name)\<close> and \<open>provider.fieldNameIndex(name)\<close>: the position of the
  first field of that name, \<open>-1\<close> when there is none.\<close>

fun indexFromName :: "field list \<Rightarrow> string \<Rightarrow> int" where
  "indexFromName [] name = - 1"
| "indexFromName (f # fs) name =
     (if fst f = name then 0
      else (let i = indexFromName fs name in if i = - 1 then - 1 else i + 1))"

definition fieldNameIndex :: "'g layer \<Rightarrow> string \<Rightarrow> int" where
  "fieldNameIndex layer name = indexFromName (layer_fields layer) name"

text \<open>\<open>layer.getFeatures(request)\<close>: the features the request selects, in layer order. The
  default request selects every feature.\<close>

definition getFeatures :: "'g layer \<Rightarrow> ('g feature \<Rightarrow> bool) \<Rightarrow> 'g feature list" where
  "getFeatures layer request = filter request (features layer)"

definition QgsFeatureRequest :: "'g feature \<Rightarrow> bool" where
  "QgsFeatureRequest f = True"

text \<open>\<open>QgsGeometry(g)\<close>: a copy of the geometry.\<close>

definition QgsGeometry :: "'g \<Rightarrow> 'g" where
  "QgsGeometry g = g"


section \<open>Vector tools\<close>

subsection \<open>\<open>points_to_rectangles\<close>\<close>

definition rectangle_feature :: "('g, 'n::{plus,minus}) qgis \<Rightarrow> 'n \<Rightarrow> 'n \<Rightarrow> 'g feature \<Rightarrow> 'g feature" where
  "rectangle_feature Q dx dy feature =
     (let attrs = attributes feature;
          (x, y) = asPoint Q (geometry feature);
          g = fromPolygon Q [[(x, y), (x + dx, y), (x + dx, y - dy), (x, y - dy)]]
      in \<lparr>geometry = g, attributes = attrs\<rparr>)"

definition points_to_rectangles ::
  "('g, 'n::{plus,minus}) qgis \<Rightarrow> 'g layer \<Rightarrow> 'n \<Rightarrow> 'n \<Rightarrow> 'g layer" where
  "points_to_rectangles Q points dx dy =
     (let crs = crs points;
          fields = layer_fields points;
          polygons = QgsVectorLayer (''Polygon?crs='' @ crs);
          polygons = provider_addAttributes Q polygons fields
      in fold (\<lambda>feature polygons. addFeatures polygons [rectangle_feature Q dx dy feature])
           (getFeatures points QgsFeatureRequest) polygons)"

subsection \<open>\<open>union_geometry\<close>\<close>

text \<open>The loop, with \<open>result_geometry\<close> as its accumulator (\<open>None\<close> before the first
  feature).\<close>

fun union_loop :: "('g, 'n) qgis \<Rightarrow> 'g option \<Rightarrow> 'g feature list \<Rightarrow> 'g option" where
  "union_loop Q result_geometry [] = result_geometry"
| "union_loop Q None (feature # rest) =
     union_loop Q (Some (QgsGeometry (geometry feature))) rest"
| "union_loop Q (Some result_geometry) (feature # rest) =
     (case combine Q result_geometry (geometry feature) of
        None \<Rightarrow> union_loop Q (Some result_geometry) rest
      | Some tmp_geometry \<Rightarrow>
          if isGeosValid Q tmp_geometry then union_loop Q (Some tmp_geometry) rest
          else union_loop Q (Some result_geometry) rest)"

definition union_geometry :: "('g, 'n) qgis \<Rightarrow> 'g layer \<Rightarrow> ('g feature \<Rightarrow> bool) \<Rightarrow> 'g option" where
  "union_geometry Q vector request = union_loop Q None (getFeatures vector request)"

subsection \<open>\<open>split_by_polygon\<close>\<close>

definition set_feature :: "'g \<Rightarrow> variant list \<Rightarrow> 'g feature" where
  "set_feature g attrs = \<lparr>geometry = g, attributes = attrs\<rparr>"

definition update_attr_list :: "variant list \<Rightarrow> int \<Rightarrow> variant \<Rightarrow> bool \<Rightarrow> error + variant list" where
  "update_attr_list attrs index val add_attribute =
     (let new_attributes = attrs
      in if add_attribute then Inr (new_attributes @ [val])
         else py_setitem new_attributes index val)"

text \<open>
  The locals that the preamble of \<open>split_by_polygon\<close> leaves for its loop.
  \<open>target_field_index\<close> is assigned only when a mark is given, so it may be unbound
  (\<open>None\<close>); \<open>target_value\<close> starts as Python's \<open>None\<close> (\<open>VNull\<close>).
\<close>

record split_locals =
  mark_value :: "(string \<times> variant) option"
  new_field_added :: bool
  target_value :: variant
  target_field_index :: "int option"

text \<open>
  The state of the loop: the local \<open>new_attributes\<close>, unbound (\<open>None\<close>) until its first
  assignment and kept from one iteration to the next, and the result layer.
\<close>

type_synonym 'g split_state = "variant list option \<times> 'g layer"

text \<open>The body of \<open>for g in intersection\<close>.\<close>

fun inside_part ::
  "('g, 'n) qgis \<Rightarrow> split_locals \<Rightarrow> variant list \<Rightarrow> int \<Rightarrow> 'g \<Rightarrow> 'g split_state
     \<Rightarrow> error + 'g split_state" where
  "inside_part Q L attrs geometry_type g (new_attributes, result_layer) =
     (if gtype Q g = geometry_type then
        bind_err
          (if mark_value L \<noteq> None then
             bind_err (local_var ''target_field_index'' (target_field_index L)) (\<lambda>index.
             bind_err (update_attr_list attrs index (target_value L) (new_field_added L))
               (\<lambda>updated. Inr (Some updated)))
           else Inr new_attributes)
          (\<lambda>new_attributes.
             bind_err (local_var ''new_attributes'' new_attributes) (\<lambda>attrs'.
               Inr (new_attributes, addFeatures result_layer [set_feature g attrs'])))
      else Inr (new_attributes, result_layer))"

text \<open>The body of \<open>for g in diff_geom\<close>.\<close>

fun outside_part ::
  "('g, 'n) qgis \<Rightarrow> split_locals \<Rightarrow> variant list \<Rightarrow> int \<Rightarrow> 'g \<Rightarrow> 'g split_state
     \<Rightarrow> error + 'g split_state" where
  "outside_part Q L attrs geometry_type g (new_attributes, result_layer) =
     (if gtype Q g = geometry_type then
        bind_err (local_var ''target_field_index'' (target_field_index L)) (\<lambda>index.
        bind_err (update_attr_list attrs index (VInt 0) (new_field_added L)) (\<lambda>updated.
          Inr (Some updated, addFeatures result_layer [set_feature g updated])))
      else Inr (new_attributes, result_layer))"

text \<open>The body of \<open>for initial_feature in vector.getFeatures(request)\<close>.\<close>

fun split_feature ::
  "('g, 'n) qgis \<Rightarrow> 'g \<Rightarrow> split_locals \<Rightarrow> 'g feature \<Rightarrow> 'g split_state
     \<Rightarrow> error + 'g split_state" where
  "split_feature Q polygon L initial_feature (new_attributes, result_layer) =
     (let initial_geom = geometry initial_feature;
          attrs = attributes initial_feature;
          geometry_type = gtype Q initial_geom
      in if intersects Q polygon initial_geom then
           (let intersection_parts =
                  asGeometryCollection Q (QgsGeometry (intersection Q initial_geom polygon))
            in bind_err
                 (fold_err (inside_part Q L attrs geometry_type) intersection_parts
                    (new_attributes, result_layer))
                 (\<lambda>st.
                    (let diff_geom =
                           asGeometryCollection Q
                             (QgsGeometry (symDifference Q initial_geom polygon))
                     in fold_err (outside_part Q L attrs geometry_type) diff_geom st)))
         else
           bind_err
             (if mark_value L \<noteq> None then
                bind_err (local_var ''target_field_index'' (target_field_index L)) (\<lambda>index.
                bind_err (update_attr_list attrs index (VInt 0) (new_field_added L))
                  (\<lambda>updated. Inr (Some updated)))
              else Inr new_attributes)
             (\<lambda>new_attributes.
                bind_err (local_var ''new_attributes'' new_attributes) (\<lambda>attrs'.
                  Inr (new_attributes,
                       addFeatures result_layer [set_feature initial_geom attrs']))))"

text \<open>The URI of the result layer, or the data-kind error for a kind that cannot be split.\<close>

definition split_uri :: "'g layer \<Rightarrow> error + string" where
  "split_uri vector =
     (let crs = crs vector
      in if geometryType vector = 0 then
           Inl (WrongDataTypeException (''Points cant'' @ [CHR 0x27] @ '' be split''))
         else if geometryType vector = 1 then Inr (''LineString?crs='' @ crs)
         else if geometryType vector = 2 then Inr (''Polygon?crs='' @ crs)
         else Inl (WrongDataTypeException
                 (''Received unexpected type of layer geometry: ''
                    @ str_int (geometryType vector))))"

text \<open>The result layer with its schema: the fields of \<open>vector\<close>, then the mark field when the
  schema of \<open>vector\<close> does not have it; and whether that field was added.\<close>

definition split_schema ::
  "('g, 'n) qgis \<Rightarrow> string \<Rightarrow> 'g layer \<Rightarrow> (string \<times> variant) option \<Rightarrow> 'g layer \<times> bool" where
  "split_schema Q uri vector mark =
     (let result_layer = QgsVectorLayer uri;
          fields = layer_fields vector;
          result_layer = provider_addAttributes Q result_layer fields
      in case mark of
           None \<Rightarrow> (result_layer, False)
         | Some (target_field, _) \<Rightarrow>
             if indexFromName fields target_field = - 1 then
               (provider_addAttributes Q result_layer [(target_field, QVariant_Int)], True)
             else (result_layer, False))"

text \<open>The second \<open>if mark_value is not None\<close>: the locals of the loop, or the data-kind error
  when the mark field does not resolve.\<close>

definition split_mark ::
  "'g layer \<Rightarrow> (string \<times> variant) option \<Rightarrow> bool \<Rightarrow> error + split_locals" where
  "split_mark result_layer mark added =
     (case mark of
        None \<Rightarrow>
          Inr \<lparr>mark_value = mark, new_field_added = added, target_value = VNull,
               target_field_index = None\<rparr>
      | Some (target_field, val) \<Rightarrow>
          (let index = fieldNameIndex result_layer target_field
           in if index = - 1 then
                Inl (WrongDataTypeException (''Field not found for '' @ target_field))
              else Inr \<lparr>mark_value = mark, new_field_added = added, target_value = val,
                        target_field_index = Some index\<rparr>))"

definition split_by_polygon ::
  "('g, 'n) qgis \<Rightarrow> 'g layer \<Rightarrow> 'g \<Rightarrow> ('g feature \<Rightarrow> bool) \<Rightarrow> (string \<times> variant) option
     \<Rightarrow> error + 'g layer" where
  "split_by_polygon Q vector polygon request mark =
     bind_err (split_uri vector) (\<lambda>uri.
       (case split_schema Q uri vector mark of
          (result_layer, added) \<Rightarrow>
            bind_err (split_mark result_layer mark added) (\<lambda>L.
            bind_err
              (fold_err (split_feature Q polygon L) (getFeatures vector request)
                 (None, result_layer))
              (\<lambda>(new_attributes, result_layer). Inr result_layer))))"


text \<open>
  What the loop adds to the result layer for one source feature when a mark is given, in
  closed form: \<open>L\<close> are the locals and \<open>i\<close> the index of the mark field. It is compared with
  the loop itself in \<open>split_feature_marked\<close>.
\<close>

definition emitted :: "('g, 'n) qgis \<Rightarrow> 'g \<Rightarrow> split_locals \<Rightarrow> int \<Rightarrow> 'g feature \<Rightarrow> 'g feature list" where
  "emitted Q polygon L i f =
     (if intersects Q polygon (geometry f) then
        map (\<lambda>g. set_feature g
               (if new_field_added L then attributes f @ [target_value L]
                else (attributes f)[nat i := target_value L]))
          (filter (\<lambda>g. gtype Q g = gtype Q (geometry f))
             (asGeometryCollection Q (intersection Q (geometry f) polygon)))
        @ map (\<lambda>g. set_feature g
               (if new_field_added L then attributes f @ [VInt 0]
                else (attributes f)[nat i := VInt 0]))
          (filter (\<lambda>g. gtype Q g = gtype Q (geometry f))
             (asGeometryCollection Q (symDifference Q (geometry f) polygon)))
      else [set_feature (geometry f)
              (if new_field_added L then attributes f @ [VInt 0]
               else (attributes f)[nat i := VInt 0])])"


section \<open>An executable instance of the host interface\<close>

text \<open>
  A small geometry engine to run the vector tools on: a point, a ring list as
  \<open>fromPolygon\<close> receives it, or a region given by its kind, a validity flag and the grid
  cells it covers. Intersection and symmetric difference are those of the cell sets, a
  region decomposes into itself unless it is empty, and the provider accepts every field.
\<close>

datatype cell_geometry =
    CPoint int int
  | CRing "(int \<times> int) list list"
  | CCells int bool "nat list"

fun cells_of :: "cell_geometry \<Rightarrow> nat list" where
  "cells_of (CCells k v cs) = cs"
| "cells_of g = []"

fun kind_of :: "cell_geometry \<Rightarrow> int" where
  "kind_of (CPoint x y) = 0"
| "kind_of (CRing rs) = 2"
| "kind_of (CCells k v cs) = k"

fun valid_of :: "cell_geometry \<Rightarrow> bool" where
  "valid_of (CCells k v cs) = v"
| "valid_of g = True"

definition cell_qgis :: "(cell_geometry, int) qgis" where
  "cell_qgis =
     \<lparr>asPoint = (\<lambda>g. case g of CPoint x y \<Rightarrow> (x, y) | _ \<Rightarrow> (0, 0)),
      fromPolygon = CRing,
      combine = (\<lambda>a b. Some (CCells (kind_of a) (valid_of a \<and> valid_of b)
                   (cells_of a @ filter (\<lambda>c. c \<notin> set (cells_of a)) (cells_of b)))),
      isGeosValid = valid_of,
      intersects = (\<lambda>a b. filter (\<lambda>c. c \<in> set (cells_of b)) (cells_of a) \<noteq> []),
      intersection = (\<lambda>a b. CCells (kind_of a) True
                        (filter (\<lambda>c. c \<in> set (cells_of b)) (cells_of a))),
      symDifference = (\<lambda>a b. CCells (kind_of a) True
                         (filter (\<lambda>c. c \<notin> set (cells_of b)) (cells_of a)
                            @ filter (\<lambda>c. c \<notin> set (cells_of a)) (cells_of b))),
      asGeometryCollection = (\<lambda>g. if cells_of g = [] then [] else [g]),
      gtype = kind_of,
      addAttributes = (\<lambda>current new. current @ new)\<rparr>"


section \<open>Properties of the gender postprocessor\<close>

lemma setup_gender_unfold: "setup_gender self params = 
       (if population_total self \<noteq> None \<or> female_ratio self \<noteq> None
       then Inl (SequencingError ''clear needs to be called before setup'', self)
       else
         (case params ''population_total'' of
            None \<Rightarrow> Inl (KeyError ''population_total'', self)
          | Some p \<Rightarrow>
               (case params ''female_ratio'' of
                 None \<Rightarrow> Inl (KeyError ''female_ratio'', self\<lparr>population_total := p\<rparr>)
               | Some r \<Rightarrow> Inr (self\<lparr>population_total := p, female_ratio := r\<rparr>))))"
  by (simp add: setup_gender_def bind_err_def AbstractPostprocessor_setup_def raise_error_def Let_def split: option.splits)

lemma process_configured:
  "process tr \<lparr>population_total = Some p, female_ratio = Some r, results = rs\<rparr> =
     Inr \<lparr>population_total = Some p, female_ratio = Some r,
          results = rs @
            [(tr ''Total'', py_int (py_round p), None),
             (tr ''Female population'', py_int (py_round (p * r)), None),
             (tr ''Weekly hygiene packs'', py_int (py_round (p * r * 0.7937)),
              Some [(''description'', ''Females hygiene packs for weekly use'')]),
             (tr ''Additional weekly rice kg for pregnant and lactating women'',
              py_int (py_round (p * r * 2 * 0.033782 + p * r * 2 * 0.01281)),
              Some [(''description'',
                     ''Additional rice kg per week for pregnant and lactating women'')])]\<rparr>"
  by (simp add: process_def bind_err_def AbstractPostprocessor_process_def
      calculate_total_def calculate_females_def calculate_weekly_hygene_packs_def
      calculate_weekly_increased_calories_def number_def append_result_def Let_def)

lemma round_values:
  "py_int (py_round 1000) = 1000" "py_int (py_round (1000 * 0.5)) = 500"
  "py_int (py_round (1000 * 0.5 * 0.7937)) = 397"
  "py_int (py_round (1000 * 0.5 * 2 * 0.033782 + 1000 * 0.5 * 2 * 0.01281)) = 47"
  by (simp_all add: py_round_def py_int_def)

text \<open>
  C1. \<open>process\<close> with either scalar null raises the sequencing error; \<open>setup\<close> with either
  scalar already set (no \<open>clear\<close> in between) raises the sequencing error; \<open>clear\<close> resets both
  scalars to null, and a \<open>setup\<close> that follows it with both parameters present succeeds.
  A raise leaves the object as it was.
\<close>

theorem gender_sequencing:
  "(population_total s = None \<or> female_ratio s = None \<longrightarrow>
      process tr s = Inl (SequencingError ''setup needs to be called before process'', s))
   \<and> (population_total s \<noteq> None \<or> female_ratio s \<noteq> None \<longrightarrow>
      setup_gender s params = Inl (SequencingError ''clear needs to be called before setup'', s))
   \<and> clear s = Inr (s\<lparr>population_total := None, female_ratio := None\<rparr>)
   \<and> (params ''population_total'' = Some p \<and> params ''female_ratio'' = Some r \<longrightarrow>
        bind_err (clear s) (\<lambda>s'. setup_gender s' params)
          = Inr (s\<lparr>population_total := p, female_ratio := r\<rparr>))"
  by (auto simp add: setup_gender_unfold process_def clear_def bind_err_def
      AbstractPostprocessor_process_def AbstractPostprocessor_clear_def raise_error_def)

theorem gender_sequencing_witness:
  "process (\<lambda>n. n) \<lparr>population_total = None, female_ratio = Some 0.5, results = []\<rparr>
     = Inl (SequencingError ''setup needs to be called before process'',
            \<lparr>population_total = None, female_ratio = Some 0.5, results = []\<rparr>)
   \<and> setup_gender \<lparr>population_total = Some 10, female_ratio = None, results = []\<rparr>
        [''population_total'' \<mapsto> Some 1000, ''female_ratio'' \<mapsto> Some 0.5]
     = Inl (SequencingError ''clear needs to be called before setup'',
            \<lparr>population_total = Some 10, female_ratio = None, results = []\<rparr>)
   \<and> bind_err (clear \<lparr>population_total = Some 10, female_ratio = None, results = []\<rparr>)
        (\<lambda>s'. setup_gender s' [''population_total'' \<mapsto> Some 1000, ''female_ratio'' \<mapsto> Some 0.5])
     = Inr \<lparr>population_total = Some 1000, female_ratio = Some 0.5, results = []\<rparr>"
  using gender_sequencing [of "\<lparr>population_total = None, female_ratio = Some 0.5, results = []\<rparr>" "\<lambda>n. n"]
    gender_sequencing [of "\<lparr>population_total = Some 10, female_ratio = None, results = []\<rparr>" _
       "[''population_total'' \<mapsto> Some 1000, ''female_ratio'' \<mapsto> Some 0.5]" "Some 1000" "Some 0.5"]
  by (simp add: bind_err_def clear_def AbstractPostprocessor_clear_def)

text \<open>
  C2. With both scalars set, \<open>process\<close> appends exactly four indicators to the results, in the
  order Total, Female population, Weekly hygiene packs, Additional weekly rice kg, each the
  integer of a single rounding of its formula (the rice indicator adds the lactating and the
  pregnant amounts before its one rounding); after \<open>setup\<close> with \<open>population_total = 1000\<close>
  and \<open>female_ratio = 0.5\<close> the four values are 1000, 500, 397 and 47.
\<close>

theorem gender_indicators:
  "process tr \<lparr>population_total = Some p, female_ratio = Some r, results = rs\<rparr> =
     Inr \<lparr>population_total = Some p, female_ratio = Some r,
          results = rs @
            [(tr ''Total'', py_int (py_round p), None),
             (tr ''Female population'', py_int (py_round (p * r)), None),
             (tr ''Weekly hygiene packs'', py_int (py_round (p * r * 0.7937)),
              Some [(''description'', ''Females hygiene packs for weekly use'')]),
             (tr ''Additional weekly rice kg for pregnant and lactating women'',
              py_int (py_round (p * r * 2 * 0.033782 + p * r * 2 * 0.01281)),
              Some [(''description'',
                     ''Additional rice kg per week for pregnant and lactating women'')])]\<rparr>
   \<and> bind_err
         (setup_gender \<lparr>population_total = None, female_ratio = None, results = rs\<rparr>
            [''population_total'' \<mapsto> Some 1000, ''female_ratio'' \<mapsto> Some 0.5])
         (process tr) =
     Inr \<lparr>population_total = Some 1000, female_ratio = Some 0.5,
          results = rs @
            [(tr ''Total'', 1000, None),
             (tr ''Female population'', 500, None),
             (tr ''Weekly hygiene packs'', 397,
              Some [(''description'', ''Females hygiene packs for weekly use'')]),
             (tr ''Additional weekly rice kg for pregnant and lactating women'', 47,
              Some [(''description'',
                     ''Additional rice kg per week for pregnant and lactating women'')])]\<rparr>"
proof
  show "process tr \<lparr>population_total = Some p, female_ratio = Some r, results = rs\<rparr> =
     Inr \<lparr>population_total = Some p, female_ratio = Some r,
          results = rs @
            [(tr ''Total'', py_int (py_round p), None),
             (tr ''Female population'', py_int (py_round (p * r)), None),
             (tr ''Weekly hygiene packs'', py_int (py_round (p * r * 0.7937)),
              Some [(''description'', ''Females hygiene packs for weekly use'')]),
             (tr ''Additional weekly rice kg for pregnant and lactating women'',
              py_int (py_round (p * r * 2 * 0.033782 + p * r * 2 * 0.01281)),
              Some [(''description'',
                     ''Additional rice kg per week for pregnant and lactating women'')])]\<rparr>"
    by (rule process_configured)
next
  have "setup_gender \<lparr>population_total = None, female_ratio = None, results = rs\<rparr>
            [''population_total'' \<mapsto> Some 1000, ''female_ratio'' \<mapsto> Some 0.5]
        = Inr \<lparr>population_total = Some 1000, female_ratio = Some 0.5, results = rs\<rparr>"
    by (simp add: setup_gender_unfold)
  then show "bind_err
         (setup_gender \<lparr>population_total = None, female_ratio = None, results = rs\<rparr>
            [''population_total'' \<mapsto> Some 1000, ''female_ratio'' \<mapsto> Some 0.5])
         (process tr) =
     Inr \<lparr>population_total = Some 1000, female_ratio = Some 0.5,
          results = rs @
            [(tr ''Total'', 1000, None),
             (tr ''Female population'', 500, None),
             (tr ''Weekly hygiene packs'', 397,
              Some [(''description'', ''Females hygiene packs for weekly use'')]),
             (tr ''Additional weekly rice kg for pregnant and lactating women'', 47,
              Some [(''description'',
                     ''Additional rice kg per week for pregnant and lactating women'')])]\<rparr>"
    using round_values by (simp add: bind_err_def process_configured)
qed

theorem gender_indicators_witness:
  "bind_err
         (setup_gender \<lparr>population_total = None, female_ratio = None, results = []\<rparr>
            [''population_total'' \<mapsto> Some 1000, ''female_ratio'' \<mapsto> Some 0.5])
         (process (\<lambda>name. name)) =
     Inr \<lparr>population_total = Some 1000, female_ratio = Some 0.5,
          results =
            [(''Total'', 1000, None),
             (''Female population'', 500, None),
             (''Weekly hygiene packs'', 397,
              Some [(''description'', ''Females hygiene packs for weekly use'')]),
             (''Additional weekly rice kg for pregnant and lactating women'', 47,
              Some [(''description'',
                     ''Additional rice kg per week for pregnant and lactating women'')])]\<rparr>"
  using gender_indicators [of "\<lambda>name. name" 0 0 "[]"] by simp

text \<open>
  C10. \<open>setup\<close> validates no range: for every parameter dictionary holding both keys, from
  the cleared object it succeeds and stores the two values as they are, whatever they are;
  and the only error it can signal then is the sequencing error.
\<close>

theorem setup_no_range_validation:
  assumes "params ''population_total'' = Some p" and "params ''female_ratio'' = Some r"
  shows "(population_total s = None \<and> female_ratio s = None \<longrightarrow>
            setup_gender s params = Inr (s\<lparr>population_total := p, female_ratio := r\<rparr>))
         \<and> (\<forall>e s'. setup_gender s params = Inl (e, s') \<longrightarrow>
               e = SequencingError ''clear needs to be called before setup'' \<and> s' = s)"
  using assms by (auto simp add: setup_gender_unfold)

theorem setup_no_range_validation_witness:
  "setup_gender \<lparr>population_total = None, female_ratio = None, results = []\<rparr>
     [''population_total'' \<mapsto> Some (- 5), ''female_ratio'' \<mapsto> Some 7]
   = Inr \<lparr>population_total = Some (- 5), female_ratio = Some 7, results = []\<rparr>"
  using setup_no_range_validation
    [of "[''population_total'' \<mapsto> Some (- 5), ''female_ratio'' \<mapsto> Some 7]" "Some (- 5)" "Some 7"
        "\<lparr>population_total = None, female_ratio = None, results = []\<rparr>"]
  by simp


section \<open>Properties of the vector tools\<close>

lemma fold_addFeatures:
  "fold (\<lambda>x l. addFeatures l [h x]) xs l = l\<lparr>features := features l @ map h xs\<rparr>"
  by (induction xs arbitrary: l) (simp_all add: addFeatures_def)

lemma getFeatures_all: "getFeatures l QgsFeatureRequest = features l"
  by (simp add: getFeatures_def QgsFeatureRequest_def)

lemma QgsVectorLayer_polygon [simp]:
  "QgsVectorLayer (CHR ''P'' # CHR ''o'' # CHR ''l'' # CHR ''y'' # CHR ''g'' # CHR ''o'' # CHR ''n''
      # CHR ''?'' # CHR ''c'' # CHR ''r'' # CHR ''s'' # CHR ''='' # c)
     = \<lparr>geometryType = 2, crs = c, layer_fields = [], features = []\<rparr>"
  by (simp add: QgsVectorLayer_def)

lemma QgsVectorLayer_line [simp]:
  "QgsVectorLayer (CHR ''L'' # CHR ''i'' # CHR ''n'' # CHR ''e'' # CHR ''S'' # CHR ''t'' # CHR ''r''
      # CHR ''i'' # CHR ''n'' # CHR ''g'' # CHR ''?'' # CHR ''c'' # CHR ''r'' # CHR ''s'' # CHR ''='' # c)
     = \<lparr>geometryType = 1, crs = c, layer_fields = [], features = []\<rparr>"
  by (simp add: QgsVectorLayer_def)

lemma union_loop_valid:
  "isGeosValid Q r \<Longrightarrow> union_loop Q (Some r) fs = Some g \<Longrightarrow> isGeosValid Q g"
  by (induction fs arbitrary: r) (auto split: option.splits if_splits)

lemma union_geometry_single:
  "union_geometry Q (vector\<lparr>features := [f]\<rparr>) QgsFeatureRequest = Some (geometry f)"
  by (simp add: union_geometry_def getFeatures_all QgsGeometry_def)

lemma local_var_error: "local_var name v = Inl e \<Longrightarrow> e = UnboundLocalError name"
  by (simp add: local_var_def split: option.splits)

lemma update_attr_list_error: "update_attr_list attrs i v add = Inl e \<Longrightarrow> e = IndexError"
  by (simp add: update_attr_list_def py_setitem_def Let_def split: if_splits)

lemma bind_err_Inl:
  "bind_err m f = Inl e \<longleftrightarrow> m = Inl e \<or> (\<exists>x. m = Inr x \<and> f x = Inl e)"
  by (cases m) (simp_all add: bind_err_def)

lemma bind_err_Inr:
  "bind_err m f = Inr y \<longleftrightarrow> (\<exists>x. m = Inr x \<and> f x = Inr y)"
  by (cases m) (simp_all add: bind_err_def)

lemma fold_err_error:
  assumes "\<And>x s e. f x s = Inl e \<Longrightarrow> P e"
  shows "fold_err f xs s = Inl e \<Longrightarrow> P e"
  using assms by (induction xs arbitrary: s) (auto split: sum.splits)

lemma inside_part_error:
  "inside_part Q L attrs gt g st = Inl e \<Longrightarrow> e \<noteq> WrongDataTypeException msg"
  by (cases st) (auto simp add: bind_err_Inl split: if_splits dest: local_var_error update_attr_list_error)

lemma outside_part_error:
  "outside_part Q L attrs gt g st = Inl e \<Longrightarrow> e \<noteq> WrongDataTypeException msg"
  by (cases st) (auto simp add: bind_err_Inl split: if_splits dest: local_var_error update_attr_list_error)

lemma inside_loop_error:
  "fold_err (inside_part Q L attrs gt) gs st = Inl e \<Longrightarrow> e \<noteq> WrongDataTypeException msg"
  by (induction gs arbitrary: st) (auto split: sum.splits dest: inside_part_error)

lemma outside_loop_error:
  "fold_err (outside_part Q L attrs gt) gs st = Inl e \<Longrightarrow> e \<noteq> WrongDataTypeException msg"
  by (induction gs arbitrary: st) (auto split: sum.splits dest: outside_part_error)

lemma split_feature_error:
  assumes "split_feature Q polygon L f st = Inl e"
  shows "e \<noteq> WrongDataTypeException msg"
proof (cases st)
  case (Pair na rl)
  show ?thesis
  proof (cases "intersects Q polygon (geometry f)")
    case True
    with assms Pair show ?thesis
      by (auto simp add: bind_err_Inl Let_def dest: inside_loop_error outside_loop_error)
  next
    case False
    with assms Pair show ?thesis
      by (auto simp add: bind_err_Inl Let_def split: if_splits
          dest: local_var_error update_attr_list_error)
  qed
qed

lemma split_loop_error:
  "fold_err (split_feature Q polygon L) fs st = Inl e \<Longrightarrow> e \<noteq> WrongDataTypeException msg"
  by (induction fs arbitrary: st) (auto split: sum.splits dest: split_feature_error)

lemma split_uri_cases:
  "split_uri vector =
     (if geometryType vector = 0 then
        Inl (WrongDataTypeException (''Points cant'' @ [CHR 0x27] @ '' be split''))
      else if geometryType vector = 1 then Inr (''LineString?crs='' @ crs vector)
      else if geometryType vector = 2 then Inr (''Polygon?crs='' @ crs vector)
      else Inl (WrongDataTypeException
              (''Received unexpected type of layer geometry: '' @ str_int (geometryType vector))))"
  by (simp add: split_uri_def Let_def)


lemma update_attr_list_ok:
  "add \<or> (0 \<le> i \<and> i < int (length attrs)) \<Longrightarrow>
   update_attr_list attrs i x add = Inr (if add then attrs @ [x] else attrs[nat i := x])"
  by (auto simp add: update_attr_list_def py_setitem_def Let_def)

lemma inside_part_marked:
  assumes "mark_value L = Some m" "target_field_index L = Some i"
    and "new_field_added L \<or> (0 \<le> i \<and> i < int (length attrs))"
  shows "inside_part Q L attrs gt g (na, rl) =
           (if gtype Q g = gt
            then Inr (Some (if new_field_added L then attrs @ [target_value L]
                            else attrs[nat i := target_value L]),
                      addFeatures rl [set_feature g
                         (if new_field_added L then attrs @ [target_value L]
                          else attrs[nat i := target_value L])])
            else Inr (na, rl))"
  using assms by (simp add: bind_err_def local_var_def update_attr_list_ok)

lemma outside_part_marked:
  assumes "target_field_index L = Some i"
    and "new_field_added L \<or> (0 \<le> i \<and> i < int (length attrs))"
  shows "outside_part Q L attrs gt g (na, rl) =
           (if gtype Q g = gt
            then Inr (Some (if new_field_added L then attrs @ [VInt 0]
                            else attrs[nat i := VInt 0]),
                      addFeatures rl [set_feature g
                         (if new_field_added L then attrs @ [VInt 0]
                          else attrs[nat i := VInt 0])])
            else Inr (na, rl))"
  using assms by (simp add: bind_err_def local_var_def update_attr_list_ok)

lemma inside_loop_marked:
  assumes "mark_value L = Some m" "target_field_index L = Some i"
    and "new_field_added L \<or> (0 \<le> i \<and> i < int (length attrs))"
  shows "\<exists>na'. fold_err (inside_part Q L attrs gt) gs (na, rl) =
           Inr (na', addFeatures rl
                  (map (\<lambda>g. set_feature g
                          (if new_field_added L then attrs @ [target_value L]
                           else attrs[nat i := target_value L]))
                     (filter (\<lambda>g. gtype Q g = gt) gs)))"
proof (induction gs arbitrary: na rl)
  case Nil
  show ?case by (simp add: addFeatures_def)
next
  case (Cons g gs)
  show ?case
  proof (cases "gtype Q g = gt")
    case True
    from Cons [of "Some (if new_field_added L then attrs @ [target_value L]
                         else attrs[nat i := target_value L])"
                  "addFeatures rl [set_feature g
                         (if new_field_added L then attrs @ [target_value L]
                          else attrs[nat i := target_value L])]"]
    show ?thesis using True
      by (simp del: inside_part.simps add: inside_part_marked [OF assms] addFeatures_def)
  next
    case False
    from Cons [of na rl] show ?thesis using False
      by (simp del: inside_part.simps add: inside_part_marked [OF assms])
  qed
qed

lemma outside_loop_marked:
  assumes "target_field_index L = Some i"
    and "new_field_added L \<or> (0 \<le> i \<and> i < int (length attrs))"
  shows "\<exists>na'. fold_err (outside_part Q L attrs gt) gs (na, rl) =
           Inr (na', addFeatures rl
                  (map (\<lambda>g. set_feature g
                          (if new_field_added L then attrs @ [VInt 0]
                           else attrs[nat i := VInt 0]))
                     (filter (\<lambda>g. gtype Q g = gt) gs)))"
proof (induction gs arbitrary: na rl)
  case Nil
  show ?case by (simp add: addFeatures_def)
next
  case (Cons g gs)
  show ?case
  proof (cases "gtype Q g = gt")
    case True
    from Cons [of "Some (if new_field_added L then attrs @ [VInt 0]
                         else attrs[nat i := VInt 0])"
                  "addFeatures rl [set_feature g
                         (if new_field_added L then attrs @ [VInt 0]
                          else attrs[nat i := VInt 0])]"]
    show ?thesis using True
      by (simp del: outside_part.simps add: outside_part_marked [OF assms] addFeatures_def)
  next
    case False
    from Cons [of na rl] show ?thesis using False
      by (simp del: outside_part.simps add: outside_part_marked [OF assms])
  qed
qed

lemma split_feature_marked:
  assumes "mark_value L = Some m" "target_field_index L = Some i"
    and "new_field_added L \<or> (0 \<le> i \<and> i < int (length (attributes f)))"
  shows "\<exists>na'. split_feature Q polygon L f (na, rl) =
           Inr (na', addFeatures rl (emitted Q polygon L i f))"
proof (cases "intersects Q polygon (geometry f)")
  case True
  obtain na1 where 1: "fold_err (inside_part Q L (attributes f) (gtype Q (geometry f)))
       (asGeometryCollection Q (intersection Q (geometry f) polygon)) (na, rl) =
     Inr (na1, addFeatures rl
                  (map (\<lambda>g. set_feature g
                          (if new_field_added L then attributes f @ [target_value L]
                           else (attributes f)[nat i := target_value L]))
                     (filter (\<lambda>g. gtype Q g = gtype Q (geometry f))
                        (asGeometryCollection Q (intersection Q (geometry f) polygon)))))"
    using inside_loop_marked [OF assms] by blast
  obtain na2 where 2: "fold_err (outside_part Q L (attributes f) (gtype Q (geometry f)))
       (asGeometryCollection Q (symDifference Q (geometry f) polygon))
       (na1, addFeatures rl
                  (map (\<lambda>g. set_feature g
                          (if new_field_added L then attributes f @ [target_value L]
                           else (attributes f)[nat i := target_value L]))
                     (filter (\<lambda>g. gtype Q g = gtype Q (geometry f))
                        (asGeometryCollection Q (intersection Q (geometry f) polygon))))) =
     Inr (na2, addFeatures (addFeatures rl
                  (map (\<lambda>g. set_feature g
                          (if new_field_added L then attributes f @ [target_value L]
                           else (attributes f)[nat i := target_value L]))
                     (filter (\<lambda>g. gtype Q g = gtype Q (geometry f))
                        (asGeometryCollection Q (intersection Q (geometry f) polygon)))))
                  (map (\<lambda>g. set_feature g
                          (if new_field_added L then attributes f @ [VInt 0]
                           else (attributes f)[nat i := VInt 0]))
                     (filter (\<lambda>g. gtype Q g = gtype Q (geometry f))
                        (asGeometryCollection Q (symDifference Q (geometry f) polygon)))))"
    using outside_loop_marked [OF assms(2,3)] by blast
  show ?thesis using True 1 2
    by (simp add: Let_def QgsGeometry_def bind_err_def emitted_def addFeatures_def)
next
  case False
  then show ?thesis using assms
    by (simp add: Let_def bind_err_def local_var_def update_attr_list_ok emitted_def)
qed

lemma split_loop_marked:
  assumes "mark_value L = Some m" "target_field_index L = Some i"
    and "\<forall>f\<in>set fs. new_field_added L \<or> (0 \<le> i \<and> i < int (length (attributes f)))"
  shows "\<exists>na'. fold_err (split_feature Q polygon L) fs (na, rl) =
           Inr (na', addFeatures rl (concat (map (emitted Q polygon L i) fs)))"
  using assms(3)
proof (induction fs arbitrary: na rl)
  case Nil
  show ?case by (simp add: addFeatures_def)
next
  case (Cons f fs)
  then have ok: "new_field_added L \<or> (0 \<le> i \<and> i < int (length (attributes f)))" by auto
  obtain na1 where 1: "split_feature Q polygon L f (na, rl) =
           Inr (na1, addFeatures rl (emitted Q polygon L i f))"
    using split_feature_marked [OF assms(1,2) ok] by blast
  from Cons obtain na2 where 2: "fold_err (split_feature Q polygon L) fs
       (na1, addFeatures rl (emitted Q polygon L i f)) =
     Inr (na2, addFeatures (addFeatures rl (emitted Q polygon L i f))
                 (concat (map (emitted Q polygon L i) fs)))"
    by (metis list.set_intros(2))
  show ?case using 1 2 by (simp del: split_feature.simps add: addFeatures_def)
qed

lemma split_feature_outside_marked:
  assumes "mark_value L = Some m" "target_field_index L = Some i"
    and "new_field_added L \<or> (0 \<le> i \<and> i < int (length (attributes f)))"
    and "\<not> intersects Q polygon (geometry f)"
  shows "\<exists>na'. split_feature Q polygon L f (na, rl) =
           Inr (na', addFeatures rl
                  [set_feature (geometry f)
                     (if new_field_added L then attributes f @ [VInt 0]
                      else (attributes f)[nat i := VInt 0])])"
  using split_feature_marked [OF assms(1,2,3), of Q polygon na rl] assms(4)
  by (simp del: split_feature.simps add: emitted_def)

lemma indexFromName_range:
  "indexFromName fs name \<noteq> - 1 \<Longrightarrow>
     0 \<le> indexFromName fs name \<and> indexFromName fs name < int (length fs)"
  by (induction fs) (auto simp add: Let_def split: if_splits)

lemma indexFromName_lower: "- 1 \<le> indexFromName fs name"
  by (induction fs) (auto simp add: Let_def)

lemma indexFromName_append_new:
  "indexFromName fs name = - 1 \<Longrightarrow> indexFromName (fs @ [(name, t)]) name = int (length fs)"
proof (induction fs)
  case Nil
  show ?case by simp
next
  case (Cons f fs)
  have "- 1 \<le> indexFromName fs name" by (rule indexFromName_lower)
  with Cons show ?case by (auto simp add: Let_def split: if_splits)
qed

lemma emitted_attributes:
  assumes "f \<in> set (emitted Q polygon L i src)"
  shows "\<exists>x. attributes f = (if new_field_added L then attributes src @ [x]
                              else (attributes src)[nat i := x])"
  using assms by (auto simp add: emitted_def set_feature_def split: if_splits)

lemma split_by_polygon_marked:
  assumes kind: "geometryType vector = 1 \<or> geometryType vector = 2"
    and accept: "\<forall>current new. addAttributes Q current new = current @ new"
    and wf: "\<forall>f\<in>set (getFeatures vector request).
               length (attributes f) = length (layer_fields vector)"
  shows "split_by_polygon Q vector polygon request (Some (target_field, v)) =
     Inr \<lparr>geometryType = geometryType vector, crs = crs vector,
          layer_fields =
            (if indexFromName (layer_fields vector) target_field = - 1
             then layer_fields vector @ [(target_field, QVariant_Int)]
             else layer_fields vector),
          features =
            concat (map (emitted Q polygon
                \<lparr>mark_value = Some (target_field, v),
                 new_field_added = (indexFromName (layer_fields vector) target_field = - 1),
                 target_value = v,
                 target_field_index =
                   Some (if indexFromName (layer_fields vector) target_field = - 1
                         then int (length (layer_fields vector))
                         else indexFromName (layer_fields vector) target_field)\<rparr>
                (if indexFromName (layer_fields vector) target_field = - 1
                 then int (length (layer_fields vector))
                 else indexFromName (layer_fields vector) target_field))
              (getFeatures vector request))\<rparr>"
proof -
  let ?absent = "indexFromName (layer_fields vector) target_field = - 1"
  let ?i = "if ?absent then int (length (layer_fields vector))
            else indexFromName (layer_fields vector) target_field"
  let ?L = "\<lparr>mark_value = Some (target_field, v), new_field_added = ?absent,
             target_value = v, target_field_index = Some ?i\<rparr>"
  let ?F = "if ?absent then layer_fields vector @ [(target_field, QVariant_Int)]
            else layer_fields vector"
  let ?rl = "\<lparr>geometryType = geometryType vector, crs = crs vector, layer_fields = ?F,
              features = []\<rparr> :: 'a layer"
  obtain uri where uri: "split_uri vector = Inr uri"
    and lay: "(QgsVectorLayer uri :: 'a layer) =
        \<lparr>geometryType = geometryType vector, crs = crs vector, layer_fields = [],
         features = []\<rparr>"
    using kind by (auto simp add: split_uri_def Let_def)
  have sch: "split_schema Q uri vector (Some (target_field, v)) = (?rl, ?absent)"
    using accept by (simp add: split_schema_def lay provider_addAttributes_def Let_def)
  have idx: "indexFromName ?F target_field = ?i"
    by (simp add: indexFromName_append_new)
  have i_ne: "?i \<noteq> - 1"
    by simp
  have mark: "split_mark ?rl (Some (target_field, v)) ?absent = Inr ?L"
    unfolding split_mark_def fieldNameIndex_def using idx i_ne
    by (simp add: Let_def)
  have ok: "\<forall>f\<in>set (getFeatures vector request).
              new_field_added ?L \<or> (0 \<le> ?i \<and> ?i < int (length (attributes f)))"
    using wf indexFromName_range [of "layer_fields vector" target_field] by auto
  obtain na' where loop: "fold_err (split_feature Q polygon ?L) (getFeatures vector request)
       (None, ?rl) =
     Inr (na', addFeatures ?rl (concat (map (emitted Q polygon ?L ?i)
                                          (getFeatures vector request))))"
    using split_loop_marked [of ?L "(target_field, v)" ?i "getFeatures vector request" Q polygon None ?rl] ok
    by auto
  show ?thesis
    unfolding split_by_polygon_def
    by (simp only: uri sch mark loop bind_err_def sum.case prod.case addFeatures_def)
       simp
qed


text \<open>
  Without a mark directive neither \<open>new_attributes\<close> nor \<open>target_field_index\<close> is ever
  assigned, so every emission raises: a split that returns has emitted nothing, and a
  selected feature outside the polygon makes the split raise.
\<close>

lemma inside_part_unmarked:
  "mark_value L = None \<Longrightarrow> inside_part Q L attrs gt g (None, rl) = Inr st \<Longrightarrow> st = (None, rl)"
  by (auto simp add: bind_err_def local_var_def split: if_splits)

lemma outside_part_unmarked:
  "target_field_index L = None \<Longrightarrow> outside_part Q L attrs gt g (None, rl) = Inr st
     \<Longrightarrow> st = (None, rl)"
  by (auto simp add: bind_err_def local_var_def split: if_splits)

lemma inside_loop_unmarked:
  "mark_value L = None \<Longrightarrow> fold_err (inside_part Q L attrs gt) gs (None, rl) = Inr st
     \<Longrightarrow> st = (None, rl)"
proof (induction gs)
  case Nil
  then show ?case by simp
next
  case (Cons g gs)
  then show ?case
    by (auto simp del: inside_part.simps split: sum.splits dest!: inside_part_unmarked)
qed

lemma outside_loop_unmarked:
  "target_field_index L = None \<Longrightarrow> fold_err (outside_part Q L attrs gt) gs (None, rl) = Inr st
     \<Longrightarrow> st = (None, rl)"
proof (induction gs)
  case Nil
  then show ?case by simp
next
  case (Cons g gs)
  then show ?case
    by (auto simp del: outside_part.simps split: sum.splits dest!: outside_part_unmarked)
qed

lemma split_feature_unmarked:
  assumes "mark_value L = None" "target_field_index L = None"
    and "split_feature Q polygon L f (None, rl) = Inr st"
  shows "st = (None, rl) \<and> intersects Q polygon (geometry f)"
proof (cases "intersects Q polygon (geometry f)")
  case True
  with assms show ?thesis
    by (auto simp add: bind_err_Inr Let_def
        dest!: inside_loop_unmarked [OF assms(1)] outside_loop_unmarked [OF assms(2)])
next
  case False
  with assms show ?thesis
    by (simp add: bind_err_def local_var_def)
qed

lemma split_loop_unmarked:
  assumes "mark_value L = None" "target_field_index L = None"
  shows "fold_err (split_feature Q polygon L) fs (None, rl) = Inr st \<Longrightarrow> st = (None, rl)"
proof (induction fs)
  case Nil
  then show ?case by simp
next
  case (Cons f fs)
  then show ?case
    by (auto simp del: split_feature.simps split: sum.splits
        dest!: split_feature_unmarked [OF assms])
qed

lemma split_unmarked_emits_nothing:
  assumes "split_by_polygon Q vector polygon request None = Inr out"
  shows "features out = []"
proof -
  from assms obtain uri where uri: "split_uri vector = Inr uri"
    by (auto simp add: split_by_polygon_def bind_err_Inr)
  obtain rl added where sch: "split_schema Q uri vector None = (rl, added)"
    by (cases "split_schema Q uri vector None")
  from assms uri sch obtain L st where
    L: "split_mark rl None added = Inr L"
    and loop: "fold_err (split_feature Q polygon L) (getFeatures vector request) (None, rl) = Inr st"
    and out: "out = snd st"
    by (auto simp add: split_by_polygon_def bind_err_Inr)
  from L have m: "mark_value L = None" "target_field_index L = None"
    by (auto simp add: split_mark_def)
  from split_loop_unmarked [OF m loop] have "st = (None, rl)" .
  moreover from sch uri have "features rl = []"
    by (auto simp add: split_schema_def provider_addAttributes_def QgsVectorLayer_def Let_def
        split_uri_def split: if_splits)
  ultimately show ?thesis using out by simp
qed

lemma split_unmarked_outside_raises_general:
  assumes "geometryType vector = 1 \<or> geometryType vector = 2"
    and "f \<in> set (getFeatures vector request)"
    and "\<not> intersects Q polygon (geometry f)"
  shows "\<exists>e. split_by_polygon Q vector polygon request None = Inl e"
proof (cases "split_by_polygon Q vector polygon request None")
  case (Inl e)
  then show ?thesis by blast
next
  case (Inr out)
  then obtain uri where uri: "split_uri vector = Inr uri"
    by (auto simp add: split_by_polygon_def bind_err_Inr)
  obtain rl added where sch: "split_schema Q uri vector None = (rl, added)"
    by (cases "split_schema Q uri vector None")
  from Inr uri sch obtain L st where
    L: "split_mark rl None added = Inr L"
    and loop: "fold_err (split_feature Q polygon L) (getFeatures vector request) (None, rl) = Inr st"
    by (auto simp add: split_by_polygon_def bind_err_Inr)
  from L have m: "mark_value L = None" "target_field_index L = None"
    by (auto simp add: split_mark_def)
  have "\<And>fs. fold_err (split_feature Q polygon L) fs (None, rl) = Inr st \<Longrightarrow>
          \<forall>f\<in>set fs. intersects Q polygon (geometry f)"
  proof -
    fix fs show "fold_err (split_feature Q polygon L) fs (None, rl) = Inr st \<Longrightarrow>
          \<forall>f\<in>set fs. intersects Q polygon (geometry f)"
    proof (induction fs)
      case Nil
      then show ?case by simp
    next
      case (Cons g gs)
      then show ?case
        by (auto simp del: split_feature.simps split: sum.splits
            dest!: split_feature_unmarked [OF m])
    qed
  qed
  from this [OF loop] assms(2,3) show ?thesis by blast
qed

text \<open>
  C7. When the provider takes over the schema of the point layer, \<open>points_to_rectangles\<close>
  returns a polygon layer with the coordinate reference system and the schema of its input
  and, for each point feature at \<open>(x, y)\<close> with attributes \<open>A\<close>, in order, exactly one feature
  with the ring \<open>(x, y), (x + dx, y), (x + dx, y - dy), (x, y - dy)\<close> and the attributes \<open>A\<close>.
  This holds for all \<open>dx\<close> and \<open>dy\<close>, the positive ones among them.
\<close>

theorem points_to_rectangles_features:
  assumes "addAttributes Q [] (layer_fields points) = layer_fields points"
  shows "points_to_rectangles Q points dx dy =
           \<lparr>geometryType = 2, crs = crs points, layer_fields = layer_fields points,
            features =
              map (\<lambda>f. \<lparr>geometry =
                          fromPolygon Q
                            [[(fst (asPoint Q (geometry f)), snd (asPoint Q (geometry f))),
                              (fst (asPoint Q (geometry f)) + dx, snd (asPoint Q (geometry f))),
                              (fst (asPoint Q (geometry f)) + dx, snd (asPoint Q (geometry f)) - dy),
                              (fst (asPoint Q (geometry f)), snd (asPoint Q (geometry f)) - dy)]],
                        attributes = attributes f\<rparr>)
                (features points)\<rparr>"
  using assms
  by (simp add: points_to_rectangles_def fold_addFeatures getFeatures_all 
      provider_addAttributes_def rectangle_feature_def Let_def case_prod_beta)

theorem points_to_rectangles_features_witness:
  "points_to_rectangles cell_qgis
     \<lparr>geometryType = 0, crs = ''EPSG:4326'', layer_fields = [(''name'', QVariant_String)],
      features = [\<lparr>geometry = CPoint 10 20, attributes = [VStr ''a'']\<rparr>,
                  \<lparr>geometry = CPoint 0 0, attributes = [VStr ''b'']\<rparr>]\<rparr> 3 4 =
     \<lparr>geometryType = 2, crs = ''EPSG:4326'', layer_fields = [(''name'', QVariant_String)],
      features = [\<lparr>geometry = CRing [[(10, 20), (13, 20), (13, 16), (10, 16)]],
                   attributes = [VStr ''a'']\<rparr>,
                  \<lparr>geometry = CRing [[(0, 0), (3, 0), (3, - 4), (0, - 4)]],
                   attributes = [VStr ''b'']\<rparr>]\<rparr>"
proof -
  have h: "addAttributes cell_qgis [] (layer_fields
     \<lparr>geometryType = 0, crs = ''EPSG:4326'', layer_fields = [(''name'', QVariant_String)],
      features = [\<lparr>geometry = CPoint 10 20, attributes = [VStr ''a'']\<rparr>,
                  \<lparr>geometry = CPoint 0 0, attributes = [VStr ''b'']\<rparr>]\<rparr>) = layer_fields
     \<lparr>geometryType = 0, crs = ''EPSG:4326'', layer_fields = [(''name'', QVariant_String)],
      features = [\<lparr>geometry = CPoint 10 20, attributes = [VStr ''a'']\<rparr>,
                  \<lparr>geometry = CPoint 0 0, attributes = [VStr ''b'']\<rparr>]\<rparr>"
    by (simp add: cell_qgis_def)
  show ?thesis
    using points_to_rectangles_features [OF h, of 3 4] by (simp add: cell_qgis_def)
qed

text \<open>
  C8. When no feature of the layer matches the request, \<open>union_geometry\<close> returns \<open>None\<close>.
\<close>

theorem union_geometry_no_match:
  "getFeatures vector request = [] \<Longrightarrow> union_geometry Q vector request = None"
  by (simp add: union_geometry_def)

theorem union_geometry_no_match_witness:
  "getFeatures \<lparr>geometryType = 2, crs = ''EPSG:4326'', layer_fields = [],
       features = [\<lparr>geometry = CCells 2 True [0, 1], attributes = []\<rparr>]\<rparr>
     (\<lambda>f. attributes f \<noteq> []) = []
   \<and> union_geometry cell_qgis
       \<lparr>geometryType = 2, crs = ''EPSG:4326'', layer_fields = [],
        features = [\<lparr>geometry = CCells 2 True [0, 1], attributes = []\<rparr>]\<rparr>
       (\<lambda>f. attributes f \<noteq> []) = None"
proof -
  have h: "getFeatures \<lparr>geometryType = 2, crs = ''EPSG:4326'', layer_fields = [],
       features = [\<lparr>geometry = CCells 2 True [0, 1], attributes = []\<rparr>]\<rparr>
     (\<lambda>f. attributes f \<noteq> []) = []"
    by (simp add: getFeatures_def)
  show ?thesis using h union_geometry_no_match [OF h, of cell_qgis] by simp
qed

text \<open>
  C3. The geometry of the first matching feature becomes the accumulator without a validity
  check: on a layer whose only feature has an invalid geometry, \<open>union_geometry\<close> returns that
  invalid geometry.
\<close>

theorem union_geometry_returns_invalid_first:
  "union_geometry cell_qgis
     \<lparr>geometryType = 2, crs = ''EPSG:4326'', layer_fields = [],
      features = [\<lparr>geometry = CCells 2 False [0, 1], attributes = []\<rparr>]\<rparr>
     QgsFeatureRequest = Some (CCells 2 False [0, 1])
   \<and> \<not> isGeosValid cell_qgis (CCells 2 False [0, 1])"
  by (simp add: union_geometry_def getFeatures_all QgsGeometry_def cell_qgis_def)

text \<open>
  C5. Without a mark directive, a feature that does not intersect the splitting polygon is
  not emitted: the local \<open>new_attributes\<close> is read before any assignment.
\<close>

theorem split_unmarked_outside_raises:
  "split_by_polygon cell_qgis
     \<lparr>geometryType = 2, crs = ''EPSG:4326'', layer_fields = [(''id'', QVariant_Int)],
      features = [\<lparr>geometry = CCells 2 True [5], attributes = [VInt 7]\<rparr>]\<rparr>
     (CCells 2 True [1, 2]) QgsFeatureRequest None
   = Inl (UnboundLocalError ''new_attributes'')"
  by (simp add: split_by_polygon_def split_uri_def split_schema_def split_mark_def
      provider_addAttributes_def getFeatures_all bind_err_def
      local_var_def cell_qgis_def Let_def)

text \<open>
  C6. A polygon feature that lies inside the splitting polygon yields its inside part and,
  from the symmetric difference, a second feature: the rest of the splitting polygon, marked
  \<open>0\<close> and carrying the attributes of the feature.
\<close>

theorem split_inside_polygon_emits_outside:
  "split_by_polygon cell_qgis
     \<lparr>geometryType = 2, crs = ''EPSG:4326'', layer_fields = [(''id'', QVariant_Int)],
      features = [\<lparr>geometry = CCells 2 True [1], attributes = [VInt 7]\<rparr>]\<rparr>
     (CCells 2 True [1, 2]) QgsFeatureRequest (Some (''inside'', VInt 1))
   = Inr \<lparr>geometryType = 2, crs = ''EPSG:4326'',
          layer_fields = [(''id'', QVariant_Int), (''inside'', QVariant_Int)],
          features = [\<lparr>geometry = CCells 2 True [1], attributes = [VInt 7, VInt 1]\<rparr>,
                      \<lparr>geometry = CCells 2 True [2], attributes = [VInt 7, VInt 0]\<rparr>]\<rparr>"
  by (simp add: split_by_polygon_def split_uri_def split_schema_def split_mark_def
      provider_addAttributes_def getFeatures_all bind_err_def
      local_var_def cell_qgis_def Let_def fieldNameIndex_def update_attr_list_def
      addFeatures_def set_feature_def QgsGeometry_def)

text \<open>
  C4. \<open>split_by_polygon\<close> raises the data-kind error exactly when the layer is a point
  layer, or its geometry kind is none of point, line and polygon, or a mark is given and its
  field does not resolve to an index in the schema of the result layer after the schema has
  been extended; a point layer raises it whatever the polygon, the request and the mark are.
\<close>

theorem split_by_polygon_data_kind_error:
  "((\<exists>msg. split_by_polygon Q vector polygon request mark = Inl (WrongDataTypeException msg))
      \<longleftrightarrow>
      geometryType vector = 0
      \<or> (geometryType vector \<noteq> 0 \<and> geometryType vector \<noteq> 1 \<and> geometryType vector \<noteq> 2)
      \<or> (\<exists>uri target_field v. split_uri vector = Inr uri \<and> mark = Some (target_field, v)
            \<and> fieldNameIndex (fst (split_schema Q uri vector mark)) target_field = - 1))
   \<and> (geometryType vector = 0 \<longrightarrow>
        split_by_polygon Q vector polygon request mark
          = Inl (WrongDataTypeException (''Points cant'' @ [CHR 0x27] @ '' be split'')))"
proof -
  consider (point) "geometryType vector = 0"
    | (other) "geometryType vector \<noteq> 0" "geometryType vector \<noteq> 1" "geometryType vector \<noteq> 2"
    | (split) "geometryType vector = 1 \<or> geometryType vector = 2"
    by blast
  then show ?thesis
  proof cases
    case point
    then show ?thesis by (simp add: split_by_polygon_def split_uri_cases bind_err_def)
  next
    case other
    then show ?thesis by (simp add: split_by_polygon_def split_uri_cases bind_err_def)
  next
    case split
    then obtain uri where uri: "split_uri vector = Inr uri"
      by (auto simp add: split_uri_cases)
    obtain rl added where sch: "split_schema Q uri vector mark = (rl, added)"
      by (cases "split_schema Q uri vector mark")
    show ?thesis
    proof (cases mark)
      case None
      with split uri sch show ?thesis
        by (auto simp add: split_by_polygon_def bind_err_Inl split_mark_def
            split: prod.splits dest: split_loop_error)
    next
      case (Some m)
      obtain tf v where m: "m = (tf, v)" by (cases m)
      with split uri sch Some show ?thesis
        by (auto simp add: split_by_polygon_def bind_err_Inl split_mark_def Let_def
            split: prod.splits if_splits dest: split_loop_error)
    qed
  qed
qed

theorem split_by_polygon_data_kind_error_witness:
  "split_by_polygon (cell_qgis\<lparr>addAttributes := (\<lambda>current new. current)\<rparr>)
     \<lparr>geometryType = 2, crs = ''EPSG:4326'', layer_fields = [(''id'', QVariant_Int)],
      features = [\<lparr>geometry = CCells 2 True [5], attributes = [VInt 7]\<rparr>]\<rparr>
     (CCells 2 True [1, 2]) QgsFeatureRequest (Some (''inside'', VInt 1))
   = Inl (WrongDataTypeException ''Field not found for inside'')
   \<and> split_by_polygon cell_qgis
     \<lparr>geometryType = 0, crs = ''EPSG:4326'', layer_fields = [],
      features = [\<lparr>geometry = CPoint 1 2, attributes = []\<rparr>]\<rparr>
     (CCells 2 True [1, 2]) QgsFeatureRequest (Some (''inside'', VInt 1))
   = Inl (WrongDataTypeException ''Points cant' be split'')
   \<and> split_by_polygon cell_qgis
     \<lparr>geometryType = 4, crs = ''EPSG:4326'', layer_fields = [],
      features = []\<rparr>
     (CCells 2 True [1, 2]) QgsFeatureRequest None
   = Inl (WrongDataTypeException ''Received unexpected type of layer geometry: 4'')"
  using split_by_polygon_data_kind_error
    [of "cell_qgis\<lparr>addAttributes := (\<lambda>current new. current)\<rparr>"
        "\<lparr>geometryType = 2, crs = ''EPSG:4326'', layer_fields = [(''id'', QVariant_Int)],
          features = [\<lparr>geometry = CCells 2 True [5], attributes = [VInt 7]\<rparr>]\<rparr>"
        "CCells 2 True [1, 2]" QgsFeatureRequest "Some (''inside'', VInt 1)"]
    split_by_polygon_data_kind_error
    [of cell_qgis
        "\<lparr>geometryType = 0, crs = ''EPSG:4326'', layer_fields = [],
          features = [\<lparr>geometry = CPoint 1 2, attributes = []\<rparr>]\<rparr>"
        "CCells 2 True [1, 2]" QgsFeatureRequest "Some (''inside'', VInt 1)"]
  by (simp add: split_by_polygon_def split_uri_def split_schema_def split_mark_def
      provider_addAttributes_def bind_err_def cell_qgis_def Let_def fieldNameIndex_def
      str_int_def)

text \<open>
  C9. With a mark directive, on a line or polygon layer whose features carry one attribute per
  field, and a provider that accepts the fields it is given, \<open>split_by_polygon\<close> returns a
  layer. When the mark field is not in the schema it is appended once, with integer type,
  and every emitted feature has the attributes of a source feature with one value appended;
  when it is in the schema the schema is unchanged and every emitted feature has the
  attributes of a source feature with the value at the index of the mark field replaced.
  In both cases every emitted feature has as many attributes as the result schema has fields.
\<close>

theorem split_by_polygon_arity:
  assumes kind: "geometryType vector = 1 \<or> geometryType vector = 2"
    and accept: "\<forall>current new. addAttributes Q current new = current @ new"
    and wf: "\<forall>f\<in>set (getFeatures vector request).
               length (attributes f) = length (layer_fields vector)"
  shows "\<exists>out. split_by_polygon Q vector polygon request (Some (target_field, v)) = Inr out
     \<and> (indexFromName (layer_fields vector) target_field = - 1 \<longrightarrow>
          layer_fields out = layer_fields vector @ [(target_field, QVariant_Int)]
          \<and> (\<forall>f\<in>set (features out). \<exists>src\<in>set (getFeatures vector request). \<exists>x.
                attributes f = attributes src @ [x]))
     \<and> (indexFromName (layer_fields vector) target_field \<noteq> - 1 \<longrightarrow>
          layer_fields out = layer_fields vector
          \<and> (\<forall>f\<in>set (features out). \<exists>src\<in>set (getFeatures vector request). \<exists>x.
                attributes f =
                  (attributes src)[nat (indexFromName (layer_fields vector) target_field) := x]))
     \<and> (\<forall>f\<in>set (features out). length (attributes f) = length (layer_fields out))"
proof -
  note eq = split_by_polygon_marked [OF assms, of polygon target_field v]
  show ?thesis
  proof (cases "indexFromName (layer_fields vector) target_field = - 1")
    case True
    show ?thesis
      unfolding eq using True wf
      by (fastforce dest!: emitted_attributes)
  next
    case False
    show ?thesis
      unfolding eq using False wf
      by (fastforce dest!: emitted_attributes)
  qed
qed

theorem split_by_polygon_arity_witness:
  "split_by_polygon cell_qgis
     \<lparr>geometryType = 2, crs = ''EPSG:4326'', layer_fields = [(''id'', QVariant_Int)],
      features = [\<lparr>geometry = CCells 2 True [5], attributes = [VInt 7]\<rparr>,
                  \<lparr>geometry = CCells 2 True [1, 2, 3], attributes = [VInt 8]\<rparr>]\<rparr>
     (CCells 2 True [1, 2]) QgsFeatureRequest (Some (''inside'', VInt 1))
   = Inr \<lparr>geometryType = 2, crs = ''EPSG:4326'',
          layer_fields = [(''id'', QVariant_Int), (''inside'', QVariant_Int)],
          features = [\<lparr>geometry = CCells 2 True [5], attributes = [VInt 7, VInt 0]\<rparr>,
                      \<lparr>geometry = CCells 2 True [1, 2], attributes = [VInt 8, VInt 1]\<rparr>,
                      \<lparr>geometry = CCells 2 True [3], attributes = [VInt 8, VInt 0]\<rparr>]\<rparr>
   \<and> split_by_polygon cell_qgis
     \<lparr>geometryType = 2, crs = ''EPSG:4326'', layer_fields = [(''id'', QVariant_Int)],
      features = [\<lparr>geometry = CCells 2 True [5], attributes = [VInt 7]\<rparr>]\<rparr>
     (CCells 2 True [1, 2]) QgsFeatureRequest (Some (''id'', VInt 1))
   = Inr \<lparr>geometryType = 2, crs = ''EPSG:4326'', layer_fields = [(''id'', QVariant_Int)],
          features = [\<lparr>geometry = CCells 2 True [5], attributes = [VInt 0]\<rparr>]\<rparr>"
proof -
  have accept: "\<forall>current new. addAttributes cell_qgis current new = current @ new"
    by (simp add: cell_qgis_def)
  have kind: "geometryType \<lparr>geometryType = 2, crs = ''EPSG:4326'', layer_fields = [(''id'', QVariant_Int)],
      features = [\<lparr>geometry = CCells 2 True [5], attributes = [VInt 7]\<rparr>,
                  \<lparr>geometry = CCells 2 True [1, 2, 3], attributes = [VInt 8]\<rparr>]\<rparr> = 1 \<or>
     geometryType \<lparr>geometryType = 2, crs = ''EPSG:4326'', layer_fields = [(''id'', QVariant_Int)],
      features = [\<lparr>geometry = CCells 2 True [5], attributes = [VInt 7]\<rparr>,
                  \<lparr>geometry = CCells 2 True [1, 2, 3], attributes = [VInt 8]\<rparr>]\<rparr> = 2"
    by simp
  have wf: "\<forall>f\<in>set (getFeatures \<lparr>geometryType = 2, crs = ''EPSG:4326'', layer_fields = [(''id'', QVariant_Int)],
      features = [\<lparr>geometry = CCells 2 True [5], attributes = [VInt 7]\<rparr>,
                  \<lparr>geometry = CCells 2 True [1, 2, 3], attributes = [VInt 8]\<rparr>]\<rparr> QgsFeatureRequest).
     length (attributes f) = length (layer_fields \<lparr>geometryType = 2, crs = ''EPSG:4326'', layer_fields = [(''id'', QVariant_Int)],
      features = [\<lparr>geometry = CCells 2 True [5], attributes = [VInt 7]\<rparr>,
                  \<lparr>geometry = CCells 2 True [1, 2, 3], attributes = [VInt 8]\<rparr>]\<rparr>)"
    by (simp add: getFeatures_all)
  show ?thesis
    using split_by_polygon_arity [OF kind accept wf, of "CCells 2 True [1, 2]" "''inside''" "VInt 1"]
    by (simp add: split_by_polygon_def split_uri_def split_schema_def split_mark_def
      provider_addAttributes_def getFeatures_all bind_err_def
      local_var_def cell_qgis_def Let_def fieldNameIndex_def update_attr_list_def
      addFeatures_def set_feature_def QgsGeometry_def py_setitem_def)
qed

end
